theory Spec2Isabelle
  imports Main "HOL-Library.Word"
begin

section \<open>Data model of the QRScanner component\<close>

text \<open>
  The component \<^verbatim>\<open>QRScanner\<close> of \<^verbatim>\<open>src/components/QRScanner.tsx\<close> keeps four pieces of
  React state (\<^verbatim>\<open>status\<close>, \<^verbatim>\<open>result\<close>, \<^verbatim>\<open>statusMessage\<close>, \<^verbatim>\<open>isScanning\<close>) and three refs
  (\<^verbatim>\<open>videoRef\<close>, \<^verbatim>\<open>canvasRef\<close>, \<^verbatim>\<open>animationFrameRef\<close>). Everything it does to the browser
  (notifications, console output, the blocking alert, frame requests, camera tracks) is
  written out: the browser's side is part of the state, and every call is appended to a
  chronological event log.
\<close>

datatype ScannerStatus = Initializing | Scanning | Detected | Error | NoCamera

type_synonym track = nat

datatype MediaStream = MediaStream (getTracks: "track list")

text \<open>The \<^verbatim>\<open>video\<close> element as far as the component writes to it.\<close>

record video =
  srcObject :: "MediaStream option"
  playing :: bool

record canvas =
  width :: nat
  height :: nat

text \<open>
  What the browser presents to one invocation of \<^verbatim>\<open>scanQRCode\<close>: whether
  \<^verbatim>\<open>canvas.getContext('2d')\<close> is non-null, the video's \<^verbatim>\<open>readyState\<close> and frame
  dimensions, and the RGBA bytes that \<^verbatim>\<open>getImageData\<close> yields once the current video frame
  has been drawn.
\<close>

type_synonym byte = "8 word"

record frame =
  context2d :: bool
  readyState :: nat
  videoWidth :: nat
  videoHeight :: nat
  imageData :: "byte list"

text \<open>
  \<^verbatim>\<open>jsQR(data, width, height)\<close> is an external library: it is a parameter of the model.
  \<^verbatim>\<open>None\<close> is its \<^verbatim>\<open>null\<close>, \<^verbatim>\<open>Some d\<close> a code object whose \<^verbatim>\<open>data\<close> is \<open>d\<close>.
\<close>

type_synonym decoder = "byte list \<Rightarrow> nat \<Rightarrow> nat \<Rightarrow> string option"

datatype variant = Default | Destructive

datatype failure = PermissionDenied | NoDevice | ApiAbsent

datatype acquisition = Resolved MediaStream | Rejected failure

datatype event =
    GetUserMedia
  | Play
  | Toast string string variant
  | ConsoleError string failure
  | ConsoleLog "string list"
  | Alert string
  | RequestAnimationFrame nat
  | CancelAnimationFrame nat
  | TrackStop track
  | IndexSizeError

record session =
  status :: ScannerStatus
  result :: string
  statusMessage :: string
  isScanning :: bool
  videoRef :: "video option"
  canvasRef :: "canvas option"
  animationFrameRef :: "nat option"
  nextHandle :: nat
  pending :: "nat list"
  live :: "track list"
  events :: "event list"

text \<open>
  \<open>nextHandle\<close>, \<open>pending\<close> and \<open>live\<close> are the browser's: the handle the next
  \<^verbatim>\<open>requestAnimationFrame\<close> returns, the frame requests still outstanding, and the camera
  tracks that are live.

  The state right after mount: the \<^verbatim>\<open>useState\<close> initial values, the two element refs as
  React has filled them, \<^verbatim>\<open>animationFrameRef\<close> still undefined. Frame request handles
  start at 1 (the platform never hands out 0).
\<close>

definition initial :: "video option \<Rightarrow> canvas option \<Rightarrow> session" where
  "initial v c =
     \<lparr> status = Initializing, result = [], statusMessage = ''Initializing camera...'',
       isScanning = False, videoRef = v, canvasRef = c, animationFrameRef = None,
       nextHandle = 1, pending = [], live = [], events = [] \<rparr>"

section \<open>Browser collaborators\<close>

definition emit :: "event \<Rightarrow> session \<Rightarrow> session" where
  "emit e w = w\<lparr>events := events w @ [e]\<rparr>"

definition toast :: "string \<Rightarrow> string \<Rightarrow> variant \<Rightarrow> session \<Rightarrow> session" where
  "toast title description v w = emit (Toast title description v) w"

definition requestAnimationFrame :: "session \<Rightarrow> nat \<times> session" where
  "requestAnimationFrame w =
     (nextHandle w,
      emit (RequestAnimationFrame (nextHandle w))
        (w\<lparr>pending := pending w @ [nextHandle w], nextHandle := Suc (nextHandle w)\<rparr>))"

definition cancelAnimationFrame :: "nat \<Rightarrow> session \<Rightarrow> session" where
  "cancelAnimationFrame h w =
     emit (CancelAnimationFrame h) (w\<lparr>pending := removeAll h (pending w)\<rparr>)"

definition stop :: "track \<Rightarrow> session \<Rightarrow> session" where
  "stop t w = emit (TrackStop t) (w\<lparr>live := removeAll t (live w)\<rparr>)"

definition HAVE_ENOUGH_DATA :: nat where
  "HAVE_ENOUGH_DATA = 4"

section \<open>The component's functions\<close>

definition updateStatus :: "ScannerStatus \<Rightarrow> string \<Rightarrow> session \<Rightarrow> session" where
  "updateStatus newStatus message w = w\<lparr>status := newStatus, statusMessage := message\<rparr>"

text \<open>
  \<^verbatim>\<open>startCamera\<close>, from the moment the \<^verbatim>\<open>getUserMedia\<close> promise settles. A resolved
  promise hands over a stream whose tracks are live from then on; a rejection (and the
  \<^verbatim>\<open>TypeError\<close> of an absent \<^verbatim>\<open>navigator.mediaDevices\<close>) lands in the \<^verbatim>\<open>catch\<close>.
  The event \<open>GetUserMedia\<close> marks the one evaluation of the expression
  \<^verbatim>\<open>navigator.mediaDevices.getUserMedia(...)\<close>, also when it throws before the platform is
  reached.
\<close>

definition startCamera :: "acquisition \<Rightarrow> session \<Rightarrow> session" where
  "startCamera acq w0 =
     (let w = emit GetUserMedia w0 in
      case acq of
        Resolved stream \<Rightarrow>
          (let w1 = w\<lparr>live := live w @ getTracks stream\<rparr> in
           case videoRef w1 of
             Some v \<Rightarrow>
               updateStatus Scanning ''Scanning for QR code...''
                 ((emit Play
                    (w1\<lparr>videoRef := Some (v\<lparr>srcObject := Some stream, playing := True\<rparr>)\<rparr>))
                  \<lparr>isScanning := True\<rparr>)
           | None \<Rightarrow> w1)
      | Rejected error \<Rightarrow>
          toast ''Camera Error'' ''Unable to access camera. Please check permissions.''
            Destructive
            (updateStatus NoCamera ''Camera access denied or not available''
               (emit (ConsoleError ''Camera access error:'' error) w)))"

text \<open>
  \<^verbatim>\<open>animationFrameRef.current = requestAnimationFrame(scanQRCode)\<close>.
\<close>

definition scheduleNext :: "session \<Rightarrow> session" where
  "scheduleNext w =
     (case requestAnimationFrame w of (h, w') \<Rightarrow> w'\<lparr>animationFrameRef := Some h\<rparr>)"

text \<open>
  \<^verbatim>\<open>scanQRCode\<close> is a \<^verbatim>\<open>useCallback\<close> closure over \<^verbatim>\<open>isScanning\<close> and \<^verbatim>\<open>status\<close>: it
  reads the values of the render that created it, not the live state. The captured values
  are the record \<open>closure\<close>; the refs are read live.

  \<^verbatim>\<open>getImageData\<close> throws an \<^verbatim>\<open>IndexSizeError\<close> when asked for a rectangle of width or
  height 0. Nothing catches it: the invocation ends there, after the canvas has been
  resized and before anything is decoded or rescheduled.
\<close>

record closure =
  c_isScanning :: bool
  c_status :: ScannerStatus

definition scanQRCode :: "decoder \<Rightarrow> closure \<Rightarrow> frame \<Rightarrow> session \<Rightarrow> session" where
  "scanQRCode jsQR cl f w =
     (case (videoRef w, canvasRef w, c_isScanning cl) of
        (Some video, Some canvas, True) \<Rightarrow>
          if context2d f \<and> readyState f = HAVE_ENOUGH_DATA then
            (let w1 = w\<lparr>canvasRef :=
                        Some (canvas\<lparr>width := videoWidth f, height := videoHeight f\<rparr>)\<rparr> in
             if videoWidth f = 0 \<or> videoHeight f = 0 then emit IndexSizeError w1
             else
               scheduleNext
                 (case jsQR (imageData f) (videoWidth f) (videoHeight f) of
                    Some data \<Rightarrow>
                      toast ''QR Code Found!'' ''Successfully decoded QR code'' Default
                        (updateStatus Detected ''QR code detected and decoded!''
                           (w1\<lparr>result := data\<rparr>))
                  | None \<Rightarrow>
                      if c_status cl \<noteq> Scanning
                      then updateStatus Scanning ''Scanning for QR code...'' w1
                      else w1))
          else scheduleNext w
      | _ \<Rightarrow> w)"

text \<open>
  \<^verbatim>\<open>handleSubmit\<close>: a JavaScript string is truthy exactly when it is not empty.
\<close>

definition handleSubmit :: "session \<Rightarrow> session" where
  "handleSubmit w =
     (if result w \<noteq> [] then
        emit (Alert (''QR Code Result: '' @ result w))
          (toast ''Result Submitted'' (''Logged to console: '' @ result w) Default
             (emit (ConsoleLog [''QR Code Result:'', result w]) w))
      else
        toast ''No Result'' ''Please scan a QR code first'' Destructive w)"

text \<open>
  The cleanup returned by the mount effect. A number is truthy exactly when it is not 0;
  \<^verbatim>\<open>videoRef.current?.srcObject\<close> is falsy when either the element or its stream is missing.
\<close>

definition cleanup :: "session \<Rightarrow> session" where
  "cleanup w =
     (let w1 = (case animationFrameRef w of
                  Some h \<Rightarrow> if h \<noteq> 0 then cancelAnimationFrame h w else w
                | None \<Rightarrow> w) in
      case videoRef w1 of
        Some v \<Rightarrow>
          (case srcObject v of
             Some stream \<Rightarrow> foldl (\<lambda>s t. stop t s) w1 (getTracks stream)
           | None \<Rightarrow> w1)
      | None \<Rightarrow> w1)"

section \<open>The scan loop\<close>

text \<open>
  The closure of the current render.
\<close>

definition render :: "session \<Rightarrow> closure" where
  "render w = \<lparr> c_isScanning = isScanning w, c_status = status w \<rparr>"

text \<open>
  The frame request named by \<^verbatim>\<open>animationFrameRef\<close> is no longer outstanding when the body
  of a tick starts: either the browser has just fired it, or the scan effect's cleanup has
  cancelled it before the effect calls the new closure.
\<close>

definition deliver :: "session \<Rightarrow> session" where
  "deliver w =
     (case animationFrameRef w of
        Some h \<Rightarrow> w\<lparr>pending := removeAll h (pending w)\<rparr>
      | None \<Rightarrow> w)"

text \<open>
  One tick of the scan loop. The scan effect depends on \<^verbatim>\<open>[isScanning, scanQRCode]\<close> and
  \<^verbatim>\<open>scanQRCode\<close> on \<^verbatim>\<open>[isScanning, status, updateStatus]\<close>: whenever \<^verbatim>\<open>status\<close> or
  \<^verbatim>\<open>isScanning\<close> changes, the effect cancels the request of the old closure and calls the
  new one. So every tick runs the closure of the current render.
\<close>

definition tick :: "decoder \<Rightarrow> frame \<Rightarrow> session \<Rightarrow> session" where
  "tick jsQR f w = scanQRCode jsQR (render w) f (deliver w)"

fun run :: "decoder \<Rightarrow> frame list \<Rightarrow> session \<Rightarrow> session" where
  "run jsQR [] w = w"
| "run jsQR (f # fs) w = run jsQR fs (tick jsQR f w)"

text \<open>The outcome of the decode attempt on a frame.\<close>

definition decode :: "decoder \<Rightarrow> frame \<Rightarrow> string option" where
  "decode jsQR f = jsQR (imageData f) (videoWidth f) (videoHeight f)"

text \<open>
  A tick makes a decode attempt when it passes both guards of \<^verbatim>\<open>scanQRCode\<close> and the
  frame is not empty.
\<close>

definition attempts :: "session \<Rightarrow> frame \<Rightarrow> bool" where
  "attempts w f =
     (videoRef w \<noteq> None \<and> canvasRef w \<noteq> None \<and> isScanning w \<and>
      context2d f \<and> readyState f = HAVE_ENOUGH_DATA \<and>
      0 < videoWidth f \<and> 0 < videoHeight f)"

text \<open>
  Every decode attempt made along a run of ticks misses. A tick that makes no attempt
  (a guard returns early, the video is not ready, the frame is empty) is not constrained,
  whatever its frame would decode to.
\<close>

fun allAttemptsMiss :: "decoder \<Rightarrow> frame list \<Rightarrow> session \<Rightarrow> bool" where
  "allAttemptsMiss jsQR [] w = True"
| "allAttemptsMiss jsQR (f # fs) w =
     ((attempts w f \<longrightarrow> decode jsQR f = None) \<and> allAttemptsMiss jsQR fs (tick jsQR f w))"

section \<open>Fixtures for concrete runs\<close>

text \<open>
  A stand-in decoder that recognises two one-byte images, a frame the loop will process,
  and a mounted component whose camera acquisition has succeeded.
\<close>

definition stub_jsQR :: decoder where
  "stub_jsQR d w h =
     (if d = [1] then Some ''HELLO'' else if d = [2] then Some ''WORLD'' else None)"

definition frame_of :: "byte list \<Rightarrow> frame" where
  "frame_of d =
     \<lparr> context2d = True, readyState = 4, videoWidth = 640, videoHeight = 480,
       imageData = d \<rparr>"

definition blank_video :: video where
  "blank_video = \<lparr> srcObject = None, playing = False \<rparr>"

definition blank_canvas :: canvas where
  "blank_canvas = \<lparr> width = 300, height = 150 \<rparr>"

definition mounted :: session where
  "mounted = initial (Some blank_video) (Some blank_canvas)"

definition scanning0 :: session where
  "scanning0 = startCamera (Resolved (MediaStream [0])) mounted"


section \<open>Basic facts about one tick\<close>

lemmas tick_defs =
  tick_def scanQRCode_def render_def deliver_def scheduleNext_def requestAnimationFrame_def
  toast_def emit_def updateStatus_def decode_def attempts_def

lemmas fixture_defs =
  scanning0_def mounted_def initial_def startCamera_def stub_jsQR_def frame_of_def
  blank_video_def blank_canvas_def HAVE_ENOUGH_DATA_def

lemma tick_isScanning: "isScanning (tick jsQR f w) = isScanning w"
  by (simp add: tick_defs Let_def split: option.splits bool.splits)

lemma tick_videoRef: "videoRef (tick jsQR f w) = videoRef w"
  by (simp add: tick_defs Let_def split: option.splits bool.splits)

lemma tick_canvasRef: "(canvasRef (tick jsQR f w) = None) = (canvasRef w = None)"
  by (auto simp add: tick_defs Let_def split: option.splits bool.splits)

lemma tick_status_eq:
  "status (tick jsQR f w) =
     (if attempts w f then
        (case decode jsQR f of
           Some d \<Rightarrow> Detected
         | None \<Rightarrow> Scanning)
      else status w)"
  by (auto simp add: tick_defs Let_def split: option.splits bool.splits)

lemma tick_result_eq:
  "result (tick jsQR f w) =
     (if attempts w f then
        (case decode jsQR f of Some d \<Rightarrow> d | None \<Rightarrow> result w)
      else result w)"
  by (auto simp add: tick_defs Let_def split: option.splits bool.splits)

lemma tick_hit_events:
  assumes "attempts w f" and "decode jsQR f = Some p"
  shows "events (tick jsQR f w) =
           events w @ [Toast ''QR Code Found!'' ''Successfully decoded QR code'' Default,
                       RequestAnimationFrame (nextHandle w)]"
  using assms by (auto simp add: tick_defs Let_def split: option.splits bool.splits)

lemma tick_hit_schedule:
  assumes "attempts w f" and "decode jsQR f = Some p"
  shows "animationFrameRef (tick jsQR f w) = Some (nextHandle w) \<and>
         nextHandle w \<in> set (pending (tick jsQR f w))"
  using assms by (auto simp add: tick_defs Let_def split: option.splits bool.splits)

lemma tick_idle:
  assumes "\<not> isScanning w" and "animationFrameRef w = None"
  shows "tick jsQR f w = w"
  using assms by (simp add: tick_defs split: option.splits bool.splits)

section \<open>Facts about runs of ticks\<close>

lemma run_append: "run jsQR (fs @ gs) w = run jsQR gs (run jsQR fs w)"
  by (induction fs arbitrary: w) simp_all

lemma run_isScanning: "isScanning (run jsQR fs w) = isScanning w"
  by (induction fs arbitrary: w) (simp_all add: tick_isScanning)

lemma run_videoRef: "videoRef (run jsQR fs w) = videoRef w"
  by (induction fs arbitrary: w) (simp_all add: tick_videoRef)

lemma run_canvasRef: "(canvasRef (run jsQR fs w) = None) = (canvasRef w = None)"
  by (induction fs arbitrary: w) (simp_all add: tick_canvasRef)

lemma run_idle:
  assumes "\<not> isScanning w" and "animationFrameRef w = None"
  shows "run jsQR fs w = w"
  using assms by (induction fs) (simp_all add: tick_idle)

lemma attempts_tick: "attempts (tick jsQR g w) f = attempts w f"
  by (simp add: attempts_def tick_isScanning tick_videoRef tick_canvasRef)

lemma allAttemptsMiss_frames:
  assumes "\<forall>f\<in>set fs. attempts w f \<longrightarrow> decode jsQR f = None"
  shows "allAttemptsMiss jsQR fs w"
  using assms by (induction fs arbitrary: w) (simp_all add: attempts_tick)

lemma allAttemptsMiss_take:
  assumes "allAttemptsMiss jsQR fs w"
  shows "allAttemptsMiss jsQR (take n fs) w"
  using assms
proof (induction fs arbitrary: n w)
  case Nil
  then show ?case by simp
next
  case (Cons f fs)
  show ?case
  proof (cases n)
    case 0
    then show ?thesis by simp
  next
    case (Suc m)
    with Cons.prems Cons.IH [of "tick jsQR f w" m] show ?thesis by simp
  qed
qed

lemma run_all_miss:
  assumes "status w = Scanning" and "allAttemptsMiss jsQR fs w"
  shows "status (run jsQR fs w) = Scanning \<and> result (run jsQR fs w) = result w"
  using assms
proof (induction fs arbitrary: w)
  case Nil
  then show ?case by simp
next
  case (Cons f fs)
  have miss: "attempts w f \<longrightarrow> decode jsQR f = None"
    using Cons.prems(2) by simp
  have st: "status (tick jsQR f w) = Scanning"
    using Cons.prems(1) miss by (simp add: tick_status_eq)
  have rs: "result (tick jsQR f w) = result w"
    using miss by (simp add: tick_result_eq)
  have "allAttemptsMiss jsQR fs (tick jsQR f w)"
    using Cons.prems(2) by simp
  with Cons.IH [OF st] rs show ?case by simp
qed

section \<open>Facts about the mount effect's cleanup\<close>

lemma stop_all_live:
  "live (foldl (\<lambda>s t. stop t s) w ts) = filter (\<lambda>t. t \<notin> set ts) (live w)"
proof (induction ts arbitrary: w)
  case Nil
  then show ?case by simp
next
  case (Cons t ts)
  have "live (stop t w) = filter (\<lambda>x. x \<noteq> t) (live w)"
    by (simp add: stop_def emit_def removeAll_filter_not_eq) (metis)
  then show ?case
    using Cons.IH [of "stop t w"] by (simp add: conj_commute)
qed

lemma stop_all_pending:
  "pending (foldl (\<lambda>s t. stop t s) w ts) = pending w"
  by (induction ts arbitrary: w) (simp_all add: stop_def emit_def)

text \<open>
  The cleanup as a function of the state it finds: if \<^verbatim>\<open>videoRef.current\<close> still holds the
  video element and the element carries the stream, it stops every track of that stream
  and cancels the frame request named by \<^verbatim>\<open>animationFrameRef\<close>. Whether the ref still
  holds the element when the cleanup runs is React's matter, not the component's: once
  the ref has been reset to null the cleanup is in the case \<open>videoRef w = None\<close> and stops
  nothing.
\<close>

lemma cleanup_attached:
  assumes "videoRef w = Some v" and "srcObject v = Some stream"
  shows "set (live (cleanup w)) \<inter> set (getTracks stream) = {}"
    and "animationFrameRef w = Some h \<Longrightarrow> h \<noteq> 0 \<Longrightarrow> h \<notin> set (pending (cleanup w))"
  using assms
  by (auto simp add: cleanup_def cancelAnimationFrame_def emit_def stop_all_live
      stop_all_pending Let_def split: option.splits)

section \<open>Properties of the specification\<close>

text \<open>
  C1, as the code has it. Once status is \<open>Detected\<close>, a tick leaves it \<open>Detected\<close>
  unless the tick makes a decode attempt and the attempt misses: in that case the
  closure sees a status other than \<open>Scanning\<close> and sets it back to \<open>Scanning\<close>.
\<close>

theorem detected_leaves_on_miss_only:
  assumes "status w = Detected"
  shows "status (tick jsQR f w) =
           (if attempts w f \<and> decode jsQR f = None then Scanning else Detected)"
  using assms by (simp add: tick_status_eq split: option.splits)

theorem detected_leaves_on_miss_only_witness:
  "status (tick stub_jsQR (frame_of [1]) scanning0) = Detected \<and>
   status (tick stub_jsQR (frame_of [2]) (tick stub_jsQR (frame_of [1]) scanning0)) = Detected"
proof -
  have d: "status (tick stub_jsQR (frame_of [1]) scanning0) = Detected"
    by (simp add: tick_defs fixture_defs Let_def)
  have "decode stub_jsQR (frame_of [2]) \<noteq> None"
    by (simp add: decode_def stub_jsQR_def frame_of_def)
  with detected_leaves_on_miss_only [OF d, of stub_jsQR "frame_of [2]"] d
  show ?thesis by simp
qed

text \<open>
  C1 as stated fails: after a successful decode has set status to \<open>Detected\<close>, the
  next tick whose decode attempt misses sets it to \<open>Scanning\<close> again.
\<close>

theorem detected_back_to_scanning:
  "status (run stub_jsQR [frame_of [1]] scanning0) = Detected \<and>
   status (run stub_jsQR [frame_of [1], frame_of []] scanning0) = Scanning"
  by (simp add: tick_defs fixture_defs Let_def)

text \<open>
  C2, as the code has it. Every tick whose decode attempt succeeds assigns that tick's
  payload to \<open>result\<close>, whatever \<open>result\<close> held before; a tick without a successful
  decode attempt leaves \<open>result\<close> as it was.
\<close>

theorem result_follows_latest_hit:
  "result (tick jsQR f w) =
     (case (if attempts w f then decode jsQR f else None) of
        Some d \<Rightarrow> d
      | None \<Rightarrow> result w)"
  by (simp add: tick_result_eq split: option.splits)

theorem result_follows_latest_hit_witness:
  "result (tick stub_jsQR (frame_of [2]) (tick stub_jsQR (frame_of [1]) scanning0)) = ''WORLD''"
proof -
  have "attempts (tick stub_jsQR (frame_of [1]) scanning0) (frame_of [2])"
    by (simp add: tick_defs fixture_defs Let_def)
  moreover have "decode stub_jsQR (frame_of [2]) = Some ''WORLD''"
    by (simp add: decode_def stub_jsQR_def frame_of_def)
  ultimately show ?thesis
    using result_follows_latest_hit
      [of stub_jsQR "frame_of [2]" "tick stub_jsQR (frame_of [1]) scanning0"]
    by simp
qed

text \<open>
  C2 as stated fails: a second successful decode with another payload overwrites the
  result of the first.
\<close>

theorem result_overwritten:
  "result (run stub_jsQR [frame_of [1]] scanning0) = ''HELLO'' \<and>
   result (run stub_jsQR [frame_of [1], frame_of [2]] scanning0) = ''WORLD''"
  by (simp add: tick_defs fixture_defs Let_def)

text \<open>
  C3. Start from a state in which the loop runs (video element and canvas present,
  \<open>isScanning\<close> set, status \<open>Scanning\<close>). After any ticks whose decode attempts all
  miss (ticks that make no attempt are free), status is still \<open>Scanning\<close>; the first
  tick whose decode attempt returns a
  non-empty payload \<open>p\<close> ends with status \<open>Detected\<close> and \<open>result = p\<close>, and what it
  adds to the event log is one success notification followed by the next frame request.
\<close>

theorem first_hit_detected:
  assumes "videoRef w \<noteq> None" and "canvasRef w \<noteq> None" and "isScanning w"
    and "status w = Scanning"
    and "allAttemptsMiss jsQR fs w"
    and "context2d f" and "readyState f = HAVE_ENOUGH_DATA"
    and "0 < videoWidth f" and "0 < videoHeight f"
    and "decode jsQR f = Some p" and "p \<noteq> []"
  shows "status (run jsQR fs w) = Scanning \<and>
         status (run jsQR (fs @ [f]) w) = Detected \<and>
         result (run jsQR (fs @ [f]) w) = p \<and>
         events (run jsQR (fs @ [f]) w) =
           events (run jsQR fs w) @
             [Toast ''QR Code Found!'' ''Successfully decoded QR code'' Default,
              RequestAnimationFrame (nextHandle (run jsQR fs w))]"
proof -
  let ?w = "run jsQR fs w"
  have st: "status ?w = Scanning"
    using run_all_miss [OF assms(4) assms(5)] by simp
  have att: "attempts ?w f"
    using assms(1-3,6-9)
    by (simp add: attempts_def run_isScanning run_videoRef run_canvasRef)
  have step: "run jsQR (fs @ [f]) w = tick jsQR f ?w"
    by (simp add: run_append)
  have "status (tick jsQR f ?w) = Detected"
    using att assms(10) by (simp add: tick_status_eq)
  moreover have "result (tick jsQR f ?w) = p"
    using att assms(10) by (simp add: tick_result_eq)
  moreover note tick_hit_events [OF att assms(10)]
  ultimately show ?thesis
    using st step by simp
qed

theorem first_hit_detected_witness:
  "status (run stub_jsQR
            [frame_of [], (frame_of [1])\<lparr>readyState := 3\<rparr>, frame_of [], frame_of [],
             frame_of []] scanning0)
     = Scanning \<and>
   status (run stub_jsQR
            ([frame_of [], (frame_of [1])\<lparr>readyState := 3\<rparr>, frame_of [], frame_of [],
              frame_of []] @
             [frame_of [1]]) scanning0) = Detected \<and>
   result (run stub_jsQR
            ([frame_of [], (frame_of [1])\<lparr>readyState := 3\<rparr>, frame_of [], frame_of [],
              frame_of []] @
             [frame_of [1]]) scanning0) = ''HELLO''"
proof -
  have w: "videoRef scanning0 \<noteq> None" "canvasRef scanning0 \<noteq> None" "isScanning scanning0"
    "status scanning0 = Scanning"
    by (simp_all add: fixture_defs tick_defs Let_def)
  have "\<forall>g\<in>set [frame_of [], (frame_of [1])\<lparr>readyState := 3\<rparr>, frame_of [], frame_of [],
                  frame_of []].
          attempts scanning0 g \<longrightarrow> decode stub_jsQR g = None"
    by (simp add: attempts_def decode_def stub_jsQR_def frame_of_def HAVE_ENOUGH_DATA_def)
  then have m: "allAttemptsMiss stub_jsQR
                  [frame_of [], (frame_of [1])\<lparr>readyState := 3\<rparr>, frame_of [], frame_of [],
                   frame_of []] scanning0"
    by (rule allAttemptsMiss_frames)
  have f: "context2d (frame_of [1])" "readyState (frame_of [1]) = HAVE_ENOUGH_DATA"
    "0 < videoWidth (frame_of [1])" "0 < videoHeight (frame_of [1])"
    "decode stub_jsQR (frame_of [1]) = Some ''HELLO''" "''HELLO'' \<noteq> []"
    by (simp_all add: decode_def stub_jsQR_def frame_of_def HAVE_ENOUGH_DATA_def)
  show ?thesis
    using first_hit_detected [OF w m f] by simp
qed

text \<open>
  C4. From status \<open>Scanning\<close> and an empty \<open>result\<close>, if every decode attempt made
  along a finite sequence of ticks misses, then after each tick of the sequence status is
  \<open>Scanning\<close> and \<open>result\<close> is empty.
\<close>

theorem all_miss_stays_scanning:
  assumes "status w = Scanning" and "result w = []"
    and "allAttemptsMiss jsQR fs w"
  shows "\<forall>n\<le>length fs.
           status (run jsQR (take n fs) w) = Scanning \<and> result (run jsQR (take n fs) w) = []"
proof (intro allI impI)
  fix n
  have "allAttemptsMiss jsQR (take n fs) w"
    using assms(3) by (rule allAttemptsMiss_take)
  from run_all_miss [OF assms(1) this] assms(2)
  show "status (run jsQR (take n fs) w) = Scanning \<and> result (run jsQR (take n fs) w) = []"
    by simp
qed

theorem all_miss_stays_scanning_witness:
  "status (run stub_jsQR
            (take 5 [frame_of [], frame_of [], (frame_of [1])\<lparr>readyState := 3\<rparr>,
                     frame_of [], frame_of []])
            scanning0) = Scanning \<and>
   result (run stub_jsQR
            (take 5 [frame_of [], frame_of [], (frame_of [1])\<lparr>readyState := 3\<rparr>,
                     frame_of [], frame_of []])
            scanning0) = []"
proof -
  have w: "status scanning0 = Scanning" "result scanning0 = []"
    by (simp_all add: fixture_defs tick_defs Let_def)
  have "\<forall>g\<in>set [frame_of [], frame_of [], (frame_of [1])\<lparr>readyState := 3\<rparr>,
                  frame_of [], frame_of []].
          attempts scanning0 g \<longrightarrow> decode stub_jsQR g = None"
    by (simp add: attempts_def decode_def stub_jsQR_def frame_of_def HAVE_ENOUGH_DATA_def)
  then have m: "allAttemptsMiss stub_jsQR
                  [frame_of [], frame_of [], (frame_of [1])\<lparr>readyState := 3\<rparr>,
                   frame_of [], frame_of []] scanning0"
    by (rule allAttemptsMiss_frames)
  have "(5::nat) \<le> length [frame_of [], frame_of [], (frame_of [1])\<lparr>readyState := 3\<rparr>,
                            frame_of [], frame_of []]"
    by simp
  with all_miss_stays_scanning [OF w m] show ?thesis
    by blast
qed

text \<open>
  C5. A tick whose decode attempt succeeds sets status to \<open>Detected\<close> and still
  schedules the next tick: after the success notification it requests a new frame,
  stores the handle in \<^verbatim>\<open>animationFrameRef\<close>, and that request is outstanding when the
  tick ends.
\<close>

theorem hit_still_reschedules:
  assumes "attempts w f" and "decode jsQR f = Some p"
  shows "status (tick jsQR f w) = Detected \<and>
         animationFrameRef (tick jsQR f w) = Some (nextHandle w) \<and>
         nextHandle w \<in> set (pending (tick jsQR f w)) \<and>
         events (tick jsQR f w) =
           events w @ [Toast ''QR Code Found!'' ''Successfully decoded QR code'' Default,
                       RequestAnimationFrame (nextHandle w)]"
  using assms tick_hit_events [OF assms] tick_hit_schedule [OF assms]
  by (simp add: tick_status_eq)

theorem hit_still_reschedules_witness:
  "attempts scanning0 (frame_of [1]) \<and>
   animationFrameRef (tick stub_jsQR (frame_of [1]) scanning0) = Some (nextHandle scanning0) \<and>
   nextHandle scanning0 \<in> set (pending (tick stub_jsQR (frame_of [1]) scanning0))"
proof -
  have a: "attempts scanning0 (frame_of [1])"
    by (simp add: tick_defs fixture_defs Let_def)
  have d: "decode stub_jsQR (frame_of [1]) = Some ''HELLO''"
    by (simp add: decode_def stub_jsQR_def frame_of_def)
  show ?thesis
    using hit_still_reschedules [OF a d] a by simp
qed


text \<open>
  C6. When acquisition fails, for whichever reason, \<^verbatim>\<open>startCamera\<close> ends with status
  \<open>NoCamera\<close> (so not \<open>Scanning\<close>) and leaves \<open>isScanning\<close> as it was; what it adds to the
  event log is the one acquisition request, the console error and one destructive
  notification. After a failure at mount \<open>isScanning\<close> is false, and no sequence of ticks
  changes the state again: nothing requests the camera a second time.
\<close>

theorem acquisition_failure_no_camera:
  "status (startCamera (Rejected e) w) = NoCamera \<and>
   status (startCamera (Rejected e) w) \<noteq> Scanning \<and>
   isScanning (startCamera (Rejected e) w) = isScanning w \<and>
   events (startCamera (Rejected e) w) =
     events w @
       [GetUserMedia,
        ConsoleError ''Camera access error:'' e,
        Toast ''Camera Error'' ''Unable to access camera. Please check permissions.''
          Destructive] \<and>
   isScanning (startCamera (Rejected e) (initial v c)) = False \<and>
   run jsQR fs (startCamera (Rejected e) (initial v c)) =
     startCamera (Rejected e) (initial v c)"
proof -
  have idle: "\<not> isScanning (startCamera (Rejected e) (initial v c))"
    "animationFrameRef (startCamera (Rejected e) (initial v c)) = None"
    by (simp_all add: startCamera_def initial_def toast_def emit_def updateStatus_def)
  show ?thesis
    using idle(1) run_idle [OF idle]
    by (simp add: startCamera_def toast_def emit_def updateStatus_def)
qed

theorem acquisition_failure_no_camera_witness:
  "status (startCamera (Rejected PermissionDenied) mounted) = NoCamera \<and>
   isScanning (startCamera (Rejected PermissionDenied) mounted) = False \<and>
   events (startCamera (Rejected PermissionDenied) mounted) =
     [GetUserMedia,
      ConsoleError ''Camera access error:'' PermissionDenied,
      Toast ''Camera Error'' ''Unable to access camera. Please check permissions.''
        Destructive]"
  using acquisition_failure_no_camera
    [of PermissionDenied mounted "Some blank_video" "Some blank_canvas"]
  by (simp add: mounted_def initial_def)

text \<open>
  C7. With an empty \<open>result\<close>, \<^verbatim>\<open>handleSubmit\<close> changes nothing but the event log, to
  which it adds exactly one destructive "No Result" notification: no console log, no
  alert, no success notification.
\<close>

theorem submit_empty_warns_only:
  assumes "result w = []"
  shows "handleSubmit w =
           w\<lparr>events := events w @
               [Toast ''No Result'' ''Please scan a QR code first'' Destructive]\<rparr>"
  using assms by (simp add: handleSubmit_def toast_def emit_def)

theorem submit_empty_warns_only_witness:
  "result mounted = [] \<and>
   events (handleSubmit mounted) =
     [Toast ''No Result'' ''Please scan a QR code first'' Destructive] \<and>
   status (handleSubmit mounted) = status mounted \<and>
   result (handleSubmit mounted) = []"
proof -
  have r: "result mounted = []"
    by (simp add: mounted_def initial_def)
  show ?thesis
    using submit_empty_warns_only [OF r] r by (simp add: mounted_def initial_def)
qed

text \<open>
  C8, as the code has it. With a non-empty \<open>result\<close> \<open>X\<close>, \<^verbatim>\<open>handleSubmit\<close> changes
  nothing but the event log, to which it adds, in this order: a console log of the label
  \<^verbatim>\<open>QR Code Result:\<close> and of \<open>X\<close> itself as a second argument, a success notification
  whose description is \<^verbatim>\<open>Logged to console: \<close> followed by \<open>X\<close>, and an alert whose text is
  \<^verbatim>\<open>QR Code Result: \<close> followed by \<open>X\<close>.
\<close>

theorem submit_nonempty_labelled:
  assumes "result w \<noteq> []"
  shows "handleSubmit w =
           w\<lparr>events := events w @
               [ConsoleLog [''QR Code Result:'', result w],
                Toast ''Result Submitted'' (''Logged to console: '' @ result w) Default,
                Alert (''QR Code Result: '' @ result w)]\<rparr>"
  using assms by (simp add: handleSubmit_def toast_def emit_def)

theorem submit_nonempty_labelled_witness:
  "result (mounted\<lparr>result := ''X''\<rparr>) \<noteq> [] \<and>
   events (handleSubmit (mounted\<lparr>result := ''X''\<rparr>)) =
     [ConsoleLog [''QR Code Result:'', ''X''],
      Toast ''Result Submitted'' ''Logged to console: X'' Default,
      Alert ''QR Code Result: X'']"
proof -
  have r: "result (mounted\<lparr>result := ''X''\<rparr>) \<noteq> []"
    by simp
  show ?thesis
    using submit_nonempty_labelled [OF r] by (simp add: mounted_def initial_def)
qed

text \<open>
  C8 as stated fails: with \<open>result = X\<close> the alert does not show \<open>X\<close> itself but \<open>X\<close>
  behind a label, and the console receives the label as well.
\<close>

theorem submit_alert_is_prefixed:
  "Alert ''X'' \<notin> set (events (handleSubmit (mounted\<lparr>result := ''X''\<rparr>))) \<and>
   ConsoleLog [''X''] \<notin> set (events (handleSubmit (mounted\<lparr>result := ''X''\<rparr>))) \<and>
   Alert ''QR Code Result: X'' \<in> set (events (handleSubmit (mounted\<lparr>result := ''X''\<rparr>)))"
  by (simp add: handleSubmit_def toast_def emit_def mounted_def initial_def)

text \<open>
  C9 at a state the cleanup misses. The camera is granted while the video element's ref
  is null, so the stream with tracks 7 and 8 is never attached; the cleanup then finds
  no stream behind \<^verbatim>\<open>videoRef\<close> and stops nothing: both tracks stay live. The same holds
  when the cleanup has run before the grant arrives.
\<close>

theorem cleanup_misses_unattached_stream:
  "live (cleanup (startCamera (Resolved (MediaStream [7, 8])) (initial None (Some blank_canvas))))
     = [7, 8] \<and>
   events (cleanup (startCamera (Resolved (MediaStream [7, 8])) (initial None (Some blank_canvas))))
     = [GetUserMedia] \<and>
   live (startCamera (Resolved (MediaStream [7, 8])) (cleanup (initial None (Some blank_canvas))))
     = [7, 8]"
  by (simp add: cleanup_def startCamera_def initial_def emit_def Let_def)

text \<open>
  C10. If the camera is granted while the video element's ref is null, \<^verbatim>\<open>startCamera\<close>
  only records the request: the stream's tracks are live, but the ref stays null,
  \<open>isScanning\<close> and status are untouched and no notification is raised. No later tick
  attaches the stream, and the cleanup leaves every live track live and stops none.
\<close>

theorem unattached_stream_is_orphaned:
  assumes "videoRef w = None"
  shows "startCamera (Resolved stream) w =
           w\<lparr>live := live w @ getTracks stream, events := events w @ [GetUserMedia]\<rparr> \<and>
         videoRef (run jsQR fs (startCamera (Resolved stream) w)) = None \<and>
         live (cleanup (startCamera (Resolved stream) w)) = live w @ getTracks stream \<and>
         filter (\<lambda>e. case e of TrackStop t \<Rightarrow> True | _ \<Rightarrow> False)
           (events (cleanup (startCamera (Resolved stream) w))) =
         filter (\<lambda>e. case e of TrackStop t \<Rightarrow> True | _ \<Rightarrow> False) (events w)"
proof -
  have eq: "startCamera (Resolved stream) w =
              w\<lparr>live := live w @ getTracks stream, events := events w @ [GetUserMedia]\<rparr>"
    using assms by (simp add: startCamera_def emit_def Let_def)
  have "videoRef (run jsQR fs (startCamera (Resolved stream) w)) = None"
    using assms by (simp add: run_videoRef eq)
  moreover have "live (cleanup (startCamera (Resolved stream) w)) = live w @ getTracks stream"
    using assms
    by (simp add: eq cleanup_def cancelAnimationFrame_def emit_def Let_def
        split: option.splits)
  moreover have "filter (\<lambda>e. case e of TrackStop t \<Rightarrow> True | _ \<Rightarrow> False)
           (events (cleanup (startCamera (Resolved stream) w))) =
         filter (\<lambda>e. case e of TrackStop t \<Rightarrow> True | _ \<Rightarrow> False) (events w)"
    using assms
    by (simp add: eq cleanup_def cancelAnimationFrame_def emit_def Let_def
        split: option.splits)
  ultimately show ?thesis
    using eq by simp
qed

theorem unattached_stream_is_orphaned_witness:
  "videoRef (initial None (Some blank_canvas)) = None \<and>
   status (startCamera (Resolved (MediaStream [3])) (initial None (Some blank_canvas)))
     = Initializing \<and>
   isScanning (startCamera (Resolved (MediaStream [3])) (initial None (Some blank_canvas)))
     = False \<and>
   events (startCamera (Resolved (MediaStream [3])) (initial None (Some blank_canvas)))
     = [GetUserMedia] \<and>
   live (cleanup (startCamera (Resolved (MediaStream [3])) (initial None (Some blank_canvas))))
     = [3]"
proof -
  let ?w0 = "initial None (Some blank_canvas)"
  have n: "videoRef ?w0 = None"
    by (simp add: initial_def)
  note h = unattached_stream_is_orphaned [OF n, of "MediaStream [3]" stub_jsQR "[]"]
  have eq: "startCamera (Resolved (MediaStream [3])) ?w0 =
              ?w0\<lparr>live := live ?w0 @ getTracks (MediaStream [3]),
                   events := events ?w0 @ [GetUserMedia]\<rparr>"
    using h by blast
  have l: "live (cleanup (startCamera (Resolved (MediaStream [3])) ?w0)) =
             live ?w0 @ getTracks (MediaStream [3])"
    using h by blast
  have "live ?w0 = []" "events ?w0 = []" "status ?w0 = Initializing" "isScanning ?w0 = False"
    by (simp_all add: initial_def)
  then show ?thesis
    using n l by (simp add: eq)
qed

end
